theory Spec2Isabelle
  imports Complex_Main "HOL-Library.Sublist"
begin

section \<open>Data model\<close>

text \<open>
  The model follows \<^verbatim>\<open>App.tsx\<close> and \<^verbatim>\<open>types.ts\<close>. A JavaScript \<^verbatim>\<open>number\<close> is
  modelled as a real (rounding of IEEE doubles is not modelled). A JavaScript string is a
  list of code units below 256 (Latin-1), which covers every literal of the program; the
  accented letters of the Portuguese literals are written with their code, for instance
  \<open>CHR 0xE1\<close> for a-acute.

  Record fields are global constants in HOL, so the fields of \<^verbatim>\<open>Device\<close> carry the
  prefix \<open>d_\<close>, those of a function call \<open>fc_\<close> and those of a function response
  \<open>fr_\<close>.
\<close>

type_synonym number = real

datatype DeviceType = LIGHT | AC | BLIND | APPLIANCE

record Device =
  d_id :: string
  d_name :: string
  d_type :: DeviceType
  d_isOn :: bool
  d_value :: "number option"
  d_unit :: "string option"
  d_room :: string

definition INITIAL_DEVICES :: "Device list" where
  "INITIAL_DEVICES =
    [ \<lparr>d_id = ''1'', d_name = ''Luz da Sala'', d_type = LIGHT, d_isOn = False,
        d_value = Some 80, d_unit = None, d_room = ''Sala de Estar''\<rparr>,
      \<lparr>d_id = ''2'', d_name = ''Ar Condicionado'', d_type = AC, d_isOn = True,
        d_value = Some 24, d_unit = None, d_room = ''Quarto Principal''\<rparr>,
      \<lparr>d_id = ''3'', d_name = ''Persiana'', d_type = BLIND, d_isOn = False,
        d_value = Some 0, d_unit = None, d_room = ''Sala de Estar''\<rparr>,
      \<lparr>d_id = ''4'', d_name = ''Luz da Cozinha'', d_type = LIGHT, d_isOn = True,
        d_value = Some 100, d_unit = None, d_room = ''Cozinha''\<rparr>,
      \<lparr>d_id = ''5'', d_name = ''Smart TV'', d_type = APPLIANCE, d_isOn = False,
        d_value = None, d_unit = None, d_room = ''Sala de Estar''\<rparr>,
      \<lparr>d_id = ''6'', d_name = ''Luz de Leitura'', d_type = LIGHT, d_isOn = False,
        d_value = Some 50, d_unit = None, d_room = ''Quarto Principal''\<rparr> ]"

section \<open>Device handlers\<close>

text \<open>
  \<^verbatim>\<open>toggleDevice\<close> and \<^verbatim>\<open>changeDeviceValue\<close> hand React a functional updater
  \<^verbatim>\<open>prev => prev.map(...)\<close>; the functions below are those updaters, from the previous
  device list to the next one.
\<close>

definition toggleDevice :: "string \<Rightarrow> Device list \<Rightarrow> Device list" where
  "toggleDevice i prev = map (\<lambda>d. if d_id d = i then d\<lparr>d_isOn := \<not> d_isOn d\<rparr> else d) prev"

definition changeDeviceValue :: "string \<Rightarrow> number \<Rightarrow> Device list \<Rightarrow> Device list" where
  "changeDeviceValue i v prev = map (\<lambda>d. if d_id d = i then d\<lparr>d_value := Some v\<rparr> else d) prev"

section \<open>Fuzzy device lookup\<close>

text \<open>
  \<^verbatim>\<open>String.prototype.toLowerCase\<close> on code units below 256: the letters A to Z and the
  Latin-1 capitals 0xC0 to 0xDE (0xD7, the multiplication sign, excepted) move up by 32.
\<close>

definition lowerChar :: "char \<Rightarrow> char" where
  "lowerChar c =
     (let n = (of_char c :: nat) in
      if (65 \<le> n \<and> n \<le> 90) \<or> (192 \<le> n \<and> n \<le> 222 \<and> n \<noteq> 215)
      then char_of (n + 32) else c)"

definition toLowerCase :: "string \<Rightarrow> string" where
  "toLowerCase s = map lowerChar s"

text \<open>\<^verbatim>\<open>s.includes(t)\<close>: \<open>t\<close> occurs in \<open>s\<close> at some position.\<close>

primrec includes_str :: "string \<Rightarrow> string \<Rightarrow> bool" where
  "includes_str [] t = (t = [])"
| "includes_str (c # cs) t = (prefix t (c # cs) \<or> includes_str cs t)"

text \<open>
  The lookup written twice in \<^verbatim>\<open>onmessage\<close>:
  \<^verbatim>\<open>devicesRef.current.find(d => d.name.toLowerCase().includes(deviceName.toLowerCase()))\<close>.
  \<^verbatim>\<open>Array.prototype.find\<close> is \<^const>\<open>List.find\<close>.
\<close>

definition nameMatches :: "string \<Rightarrow> Device \<Rightarrow> bool" where
  "nameMatches deviceName d = includes_str (toLowerCase (d_name d)) (toLowerCase deviceName)"

definition findTarget :: "Device list \<Rightarrow> string \<Rightarrow> Device option" where
  "findTarget ds deviceName = List.find (nameMatches deviceName) ds"

section \<open>Tool calls\<close>

text \<open>
  A function call of the remote peer carries \<^verbatim>\<open>name\<close>, \<^verbatim>\<open>args\<close> and \<^verbatim>\<open>id\<close>. The
  dispatcher reads the arguments through \<^verbatim>\<open>(args as any)\<close>, so nothing guarantees the
  interfaces \<^verbatim>\<open>ControlDeviceArgs\<close> and \<^verbatim>\<open>SetValueArgs\<close> of \<^verbatim>\<open>types.ts\<close>.
  \<open>deviceName\<close> is \<open>None\<close> when \<^verbatim>\<open>args.deviceName\<close> cannot be lowered: the arguments
  or the field are missing, or the field is not a string. \<^verbatim>\<open>action\<close> is only compared with
  \<^verbatim>\<open>'turnOn'\<close> and \<^verbatim>\<open>value\<close> is only stored and printed, so reading them never throws.
\<close>

datatype JsError = TypeError | DecodeFailed

record Args =
  deviceName :: "string option"
  action :: string
  arg_value :: number

record FunctionCall =
  fc_name :: string
  fc_args :: Args
  fc_id :: string

record ToolResult =
  status :: string
  message :: string

record FunctionResponse =
  fr_id :: string
  fr_name :: string
  fr_result :: ToolResult

text \<open>
  The lookup as the dispatcher runs it. The callback of \<^verbatim>\<open>find\<close> evaluates
  \<^verbatim>\<open>(args as any).deviceName.toLowerCase()\<close> at each device it visits: without a string
  \<^verbatim>\<open>deviceName\<close> it throws a \<^verbatim>\<open>TypeError\<close> at the first device, and on an empty device
  list it never runs, so \<^verbatim>\<open>find\<close> returns \<^verbatim>\<open>undefined\<close>.
\<close>

definition resolveTarget :: "Device list \<Rightarrow> string option \<Rightarrow> JsError + Device option" where
  "resolveTarget ref dn =
     (case dn of
        Some n \<Rightarrow> Inr (findTarget ref n)
      | None \<Rightarrow> if ref = [] then Inr None else Inl TypeError)"

text \<open>The object pushed to \<^verbatim>\<open>functionResponses\<close>.\<close>

definition functionResponse :: "FunctionCall \<Rightarrow> ToolResult \<Rightarrow> FunctionResponse" where
  "functionResponse fc result = \<lparr>fr_id = fc_id fc, fr_name = fc_name fc, fr_result = result\<rparr>"

text \<open>
  One iteration of the loop \<^verbatim>\<open>for (const fc of msg.toolCall.functionCalls)\<close>. The lookup
  reads \<^verbatim>\<open>devicesRef.current\<close>, which React refreshes only after the next render, so it is
  the same list \<open>ref\<close> for every call of one message. The updaters queued by
  \<^verbatim>\<open>toggleDevice\<close> and \<^verbatim>\<open>changeDeviceValue\<close> are applied in order to the device state
  \<open>devs\<close>. \<open>numberToString\<close> is the conversion that the template literal applies to
  \<^verbatim>\<open>args.value\<close>. An exception of the lookup leaves the iteration before anything is
  queued or pushed.
\<close>

definition dispatchCall ::
  "(number \<Rightarrow> string) \<Rightarrow> Device list \<Rightarrow> FunctionCall \<Rightarrow> Device list \<Rightarrow>
   JsError + (Device list \<times> FunctionResponse)" where
  "dispatchCall numberToString ref fc devs =
     (let name = fc_name fc; args = fc_args fc;
          result = \<lparr>status = ''error'', message = ''Unknown device''\<rparr>
      in if name = ''controlDevice'' then
           (case resolveTarget ref (deviceName args) of
              Inl e \<Rightarrow> Inl e
            | Inr (Some target) \<Rightarrow>
                (let shouldBeOn = (action args = ''turnOn'') in
                 Inr (toggleDevice (d_id target) devs,
                      functionResponse fc
                        \<lparr>status = ''ok'',
                         message = d_name target @ '' agora est'' @ [CHR 0xE1] @ '' '' @
                                   (if shouldBeOn then ''ligado'' else ''desligado'')\<rparr>))
            | Inr None \<Rightarrow> Inr (devs, functionResponse fc result))
         else if name = ''setDeviceValue'' then
           (case resolveTarget ref (deviceName args) of
              Inl e \<Rightarrow> Inl e
            | Inr (Some target) \<Rightarrow>
                Inr (changeDeviceValue (d_id target) (arg_value args) devs,
                     functionResponse fc
                       \<lparr>status = ''ok'',
                        message = d_name target @ '' ajustado para '' @
                                  numberToString (arg_value args)\<rparr>)
            | Inr None \<Rightarrow> Inr (devs, functionResponse fc result))
         else Inr (devs, functionResponse fc result))"

text \<open>
  The loop itself, with \<^verbatim>\<open>functionResponses.push\<close> as the accumulator. An exception ends
  it; the updaters that earlier iterations queued stay queued, so the device state reached
  so far is returned with the exception.
\<close>

fun dispatchLoop ::
  "(number \<Rightarrow> string) \<Rightarrow> Device list \<Rightarrow> FunctionCall list \<Rightarrow> Device list \<Rightarrow>
   FunctionResponse list \<Rightarrow> Device list \<times> (JsError + FunctionResponse list)" where
  "dispatchLoop numberToString ref [] devs functionResponses = (devs, Inr functionResponses)"
| "dispatchLoop numberToString ref (fc # fcs) devs functionResponses =
     (case dispatchCall numberToString ref fc devs of
        Inl e \<Rightarrow> (devs, Inl e)
      | Inr (devs', r) \<Rightarrow> dispatchLoop numberToString ref fcs devs' (functionResponses @ [r]))"

section \<open>Application state and effects\<close>

text \<open>
  Objects created at run time (audio contexts, audio nodes, the media stream, the session
  promise) are handles, numbered in order of creation. The calls the component makes into
  the browser and the SDK are recorded in a trace, oldest first.
\<close>

type_synonym handle = nat

datatype Effect =
    NewAudioContext handle nat
  | LiveConnect handle
  | GetUserMedia handle
  | CreateMediaStreamSource handle handle
  | CreateScriptProcessor handle handle
  | NodeConnect handle
  | NodeDisconnect handle
  | ContextClose handle
  | BufferSourceStart handle number number
  | SendToolResponse "FunctionResponse list"
  | ConsoleError string

record AppState =
  devices :: "Device list"
  devicesRef :: "Device list"
  isLiveConnected :: bool
  isAudioStreamActive :: bool
  statusMessage :: string
  audioContextRef :: "handle option"
  inputSourceRef :: "handle option"
  processorRef :: "handle option"
  nextStartTimeRef :: number
  sessionRef :: "handle option"
  trace :: "Effect list"
  fresh :: handle

definition initialState :: AppState where
  "initialState =
     \<lparr>devices = INITIAL_DEVICES, devicesRef = INITIAL_DEVICES,
      isLiveConnected = False, isAudioStreamActive = False,
      statusMessage = ''Toque no microfone para falar'',
      audioContextRef = None, inputSourceRef = None, processorRef = None,
      nextStartTimeRef = 0, sessionRef = None, trace = [], fresh = 0\<rparr>"

text \<open>The effect \<^verbatim>\<open>useEffect(() => { devicesRef.current = devices }, [devices])\<close>.\<close>

definition syncDevicesRef :: "AppState \<Rightarrow> AppState" where
  "syncDevicesRef s = s\<lparr>devicesRef := devices s\<rparr>"

definition emit :: "Effect list \<Rightarrow> AppState \<Rightarrow> AppState" where
  "emit es s = s\<lparr>trace := trace s @ es\<rparr>"

section \<open>Session lifecycle\<close>

definition disconnect :: "AppState \<Rightarrow> AppState" where
  "disconnect s =
     (let s1 = s\<lparr>isLiveConnected := False, isAudioStreamActive := False,
                 statusMessage := ''Toque no microfone para falar''\<rparr>;
          s2 = (case processorRef s1 of
                  Some p \<Rightarrow> (emit [NodeDisconnect p] s1)\<lparr>processorRef := None\<rparr>
                | None \<Rightarrow> s1);
          s3 = (case inputSourceRef s2 of
                  Some i \<Rightarrow> (emit [NodeDisconnect i] s2)\<lparr>inputSourceRef := None\<rparr>
                | None \<Rightarrow> s2);
          s4 = (case audioContextRef s3 of
                  Some c \<Rightarrow> (emit [ContextClose c] s3)\<lparr>audioContextRef := None\<rparr>
                | None \<Rightarrow> s3)
      in s4\<lparr>sessionRef := None, nextStartTimeRef := 0\<rparr>)"

text \<open>
  \<^verbatim>\<open>startMicrophone\<close> awaits \<^verbatim>\<open>getUserMedia\<close>; its outcome is given by the environment.
  When the promise rejects, the \<^verbatim>\<open>catch\<close> block logs and returns.
\<close>

datatype MicOutcome = MicGranted | MicRejected

definition startMicrophone :: "MicOutcome \<Rightarrow> AppState \<Rightarrow> AppState" where
  "startMicrophone mic s =
     (case mic of
        MicRejected \<Rightarrow> emit [ConsoleError ''Mic error''] s
      | MicGranted \<Rightarrow>
          (let stream = fresh s; inputCtx = fresh s + 1; source = fresh s + 2;
               processor = fresh s + 3
           in (emit [GetUserMedia stream, NewAudioContext inputCtx 16000,
                     CreateMediaStreamSource inputCtx source,
                     CreateScriptProcessor inputCtx processor,
                     NodeConnect source, NodeConnect processor] s)
              \<lparr>inputSourceRef := Some source, processorRef := Some processor,
               isAudioStreamActive := True, fresh := fresh s + 4\<rparr>))"

definition onopen :: "MicOutcome \<Rightarrow> AppState \<Rightarrow> AppState" where
  "onopen mic s =
     startMicrophone mic
       (s\<lparr>isLiveConnected := True, statusMessage := ''Ouvindo... Pode falar.''\<rparr>)"

definition onclose :: "AppState \<Rightarrow> AppState" where
  "onclose s = disconnect s"

definition onerror :: "AppState \<Rightarrow> AppState" where
  "onerror s =
     disconnect ((emit [ConsoleError ''Gemini Error''] s)
       \<lparr>statusMessage := ''Erro na conex'' @ [CHR 0xE3] @ ''o. Tente novamente.''\<rparr>)"

text \<open>
  \<^verbatim>\<open>connectToGemini\<close> has no \<^verbatim>\<open>await\<close> inside its \<^verbatim>\<open>try\<close>: the \<^verbatim>\<open>catch\<close> runs only
  when the \<^verbatim>\<open>AudioContext\<close> constructor or \<^verbatim>\<open>ai.live.connect\<close> throws synchronously.
\<close>

datatype ConnectOutcome = HandshakeIssued | AudioContextThrows | LiveConnectThrows

definition connectFailed :: "AppState \<Rightarrow> AppState" where
  "connectFailed s =
     disconnect ((emit [ConsoleError ''Connection failed''] s)
       \<lparr>statusMessage := ''Falha ao iniciar. Verifique o microfone.''\<rparr>)"

definition connectToGemini :: "ConnectOutcome \<Rightarrow> AppState \<Rightarrow> AppState" where
  "connectToGemini outcome s =
     (let s1 = s\<lparr>statusMessage := ''Conectando...''\<rparr> in
      case outcome of
        AudioContextThrows \<Rightarrow> connectFailed s1
      | _ \<Rightarrow>
          (let ctx = fresh s1;
               s2 = (emit [NewAudioContext ctx 24000] s1)
                      \<lparr>audioContextRef := Some ctx, fresh := fresh s1 + 1\<rparr>
           in case outcome of
                LiveConnectThrows \<Rightarrow> connectFailed s2
              | _ \<Rightarrow>
                  (let sessionPromise = fresh s2
                   in (emit [LiveConnect sessionPromise] s2)
                        \<lparr>sessionRef := Some sessionPromise, fresh := fresh s2 + 1\<rparr>)))"

definition toggleConnection :: "ConnectOutcome \<Rightarrow> AppState \<Rightarrow> AppState" where
  "toggleConnection outcome s =
     (if isLiveConnected s then disconnect s else connectToGemini outcome s)"

section \<open>Playback and inbound messages\<close>

text \<open>
  \<^verbatim>\<open>playAudioBuffer\<close>: \<open>ctxTime\<close> is \<^verbatim>\<open>audioContextRef.current.currentTime\<close> and the buffer
  is given by its \<^verbatim>\<open>duration\<close>, the one property read.
\<close>

definition playAudioBuffer :: "number \<Rightarrow> number \<Rightarrow> AppState \<Rightarrow> AppState" where
  "playAudioBuffer ctxTime duration s =
     (case audioContextRef s of
        None \<Rightarrow> s
      | Some ctx \<Rightarrow>
          (let src = fresh s;
               startAt = max ctxTime (nextStartTimeRef s)
           in (emit [BufferSourceStart src startAt duration] s)
                \<lparr>nextStartTimeRef := startAt + duration, fresh := fresh s + 1\<rparr>))"

text \<open>
  An inbound message: \<open>audioData\<close> is
  \<^verbatim>\<open>msg.serverContent?.modelTurn?.parts?.[0]?.inlineData?.data\<close> and \<open>toolCall\<close> is
  \<^verbatim>\<open>msg.toolCall.functionCalls\<close> when \<^verbatim>\<open>msg.toolCall\<close> is there.

  \<^verbatim>\<open>base64ToUint8Array\<close> and \<^verbatim>\<open>decodeAudioData\<close> live in \<^verbatim>\<open>utils/audioUtils\<close>; they are
  the parameter \<open>decode\<close>, from the payload to the duration of the decoded buffer, with
  \<open>None\<close> when the awaited call throws.

  \<^verbatim>\<open>onmessage\<close> has no \<^verbatim>\<open>try\<close>: an exception of the decoding or of the tool-call loop
  ends the handler. Each part returns the state it reached and the exception, if any.
\<close>

record LiveServerMessage =
  audioData :: "string option"
  toolCall :: "FunctionCall list option"

definition handleAudioOutput ::
  "(string \<Rightarrow> number option) \<Rightarrow> number \<Rightarrow> AppState \<Rightarrow> LiveServerMessage \<Rightarrow>
   AppState \<times> JsError option" where
  "handleAudioOutput decode ctxTime s msg =
     (case audioData msg of
        None \<Rightarrow> (s, None)
      | Some a \<Rightarrow>
          if a \<noteq> [] \<and> audioContextRef s \<noteq> None then
            (case decode a of
               None \<Rightarrow> (s, Some DecodeFailed)
             | Some duration \<Rightarrow> (playAudioBuffer ctxTime duration s, None))
          else (s, None))"

definition handleToolCalls ::
  "(number \<Rightarrow> string) \<Rightarrow> AppState \<Rightarrow> LiveServerMessage \<Rightarrow> AppState \<times> JsError option" where
  "handleToolCalls numberToString s msg =
     (case toolCall msg of
        None \<Rightarrow> (s, None)
      | Some functionCalls \<Rightarrow>
          (case dispatchLoop numberToString (devicesRef s) functionCalls (devices s) [] of
             (devs', Inl e) \<Rightarrow> (s\<lparr>devices := devs'\<rparr>, Some e)
           | (devs', Inr functionResponses) \<Rightarrow>
               ((emit [SendToolResponse functionResponses] s)\<lparr>devices := devs'\<rparr>, None)))"

definition onmessage ::
  "(string \<Rightarrow> number option) \<Rightarrow> (number \<Rightarrow> string) \<Rightarrow> number \<Rightarrow> AppState \<Rightarrow>
   LiveServerMessage \<Rightarrow> AppState \<times> JsError option" where
  "onmessage decode numberToString ctxTime s msg =
     (case handleAudioOutput decode ctxTime s msg of
        (s1, Some e) \<Rightarrow> (s1, Some e)
      | (s1, None) \<Rightarrow> handleToolCalls numberToString s1 msg)"

section \<open>Observations and sample inputs\<close>

text \<open>
  In the words of the specification: the display name contains the query as a substring,
  case-insensitively. \<^const>\<open>sublist\<close> is the contiguous-sublist relation of the library.
\<close>

definition containsIgnoringCase :: "string \<Rightarrow> string \<Rightarrow> bool" where
  "containsIgnoringCase name q = sublist (toLowerCase q) (toLowerCase name)"

text \<open>The tool-response messages and the scheduled start times recorded in a trace.\<close>

fun toolResponses :: "Effect list \<Rightarrow> FunctionResponse list list" where
  "toolResponses [] = []"
| "toolResponses (SendToolResponse rs # es) = rs # toolResponses es"
| "toolResponses (e # es) = toolResponses es"

fun startTimes :: "Effect list \<Rightarrow> number list" where
  "startTimes [] = []"
| "startTimes (BufferSourceStart src startAt duration # es) = startAt # startTimes es"
| "startTimes (e # es) = startTimes es"

text \<open>
  The component keeps no phase variable. A session is idle or closed when both flags are
  off, the status line is the idle one, every ref is null and the cursor is 0: the state
  before the first connection and the state every \<^const>\<open>disconnect\<close> leaves.
\<close>

definition idleOrClosed :: "AppState \<Rightarrow> bool" where
  "idleOrClosed s \<longleftrightarrow>
     \<not> isLiveConnected s \<and> \<not> isAudioStreamActive s \<and>
     statusMessage s = ''Toque no microfone para falar'' \<and>
     processorRef s = None \<and> inputSourceRef s = None \<and> audioContextRef s = None \<and>
     sessionRef s = None \<and> nextStartTimeRef s = 0"

text \<open>
  The inputs on which the handler throws: the awaited decoding throws, or a
  \<^verbatim>\<open>controlDevice\<close> or \<^verbatim>\<open>setDeviceValue\<close> call has no string \<^verbatim>\<open>deviceName\<close> while there
  is a device to visit.
\<close>

definition audioThrows :: "(string \<Rightarrow> number option) \<Rightarrow> AppState \<Rightarrow> LiveServerMessage \<Rightarrow> bool" where
  "audioThrows decode s msg =
     (case audioData msg of
        None \<Rightarrow> False
      | Some a \<Rightarrow> a \<noteq> [] \<and> audioContextRef s \<noteq> None \<and> decode a = None)"

definition callThrows :: "Device list \<Rightarrow> FunctionCall \<Rightarrow> bool" where
  "callThrows ref fc \<longleftrightarrow>
     (fc_name fc = ''controlDevice'' \<or> fc_name fc = ''setDeviceValue'') \<and>
     deviceName (fc_args fc) = None \<and> ref \<noteq> []"

text \<open>
  Inputs for the concrete examples. \<open>toString50\<close> stands for the number conversion in
  examples whose only number is 50.
\<close>

definition toString50 :: "number \<Rightarrow> string" where
  "toString50 x = ''50''"

definition turnOnAC :: FunctionCall where
  "turnOnAC = \<lparr>fc_name = ''controlDevice'',
     fc_args = \<lparr>deviceName = Some ''Ar Condicionado'', action = ''turnOn'', arg_value = 0\<rparr>,
     fc_id = ''call-1''\<rparr>"

definition setInexistente :: FunctionCall where
  "setInexistente = \<lparr>fc_name = ''setDeviceValue'',
     fc_args = \<lparr>deviceName = Some ''inexistente'', action = [], arg_value = 50\<rparr>,
     fc_id = ''call-2''\<rparr>"

definition openGarage :: FunctionCall where
  "openGarage = \<lparr>fc_name = ''openGarage'',
     fc_args = \<lparr>deviceName = Some ''Persiana'', action = ''turnOn'', arg_value = 0\<rparr>,
     fc_id = ''call-3''\<rparr>"

definition noDeviceName :: FunctionCall where
  "noDeviceName = \<lparr>fc_name = ''setDeviceValue'',
     fc_args = \<lparr>deviceName = None, action = [], arg_value = 50\<rparr>,
     fc_id = ''call-4''\<rparr>"

definition twoCalls :: LiveServerMessage where
  "twoCalls = \<lparr>audioData = None, toolCall = Some [turnOnAC, setInexistente]\<rparr>"

definition unknownCall :: LiveServerMessage where
  "unknownCall = \<lparr>audioData = None, toolCall = Some [turnOnAC, openGarage]\<rparr>"

definition callsAndBadAudio :: LiveServerMessage where
  "callsAndBadAudio = \<lparr>audioData = Some ''AAAA'', toolCall = Some [turnOnAC, setInexistente]\<rparr>"

definition callWithoutName :: LiveServerMessage where
  "callWithoutName = \<lparr>audioData = None, toolCall = Some [turnOnAC, noDeviceName]\<rparr>"

definition playing :: AppState where
  "playing = connectToGemini HandshakeIssued initialState"

definition connected :: AppState where
  "connected = onopen MicGranted (connectToGemini HandshakeIssued initialState)"

section \<open>The tool dispatcher\<close>

lemma toolResponses_append: "toolResponses (xs @ ys) = toolResponses xs @ toolResponses ys"
  by (induction xs rule: toolResponses.induct) simp_all

lemma resolveTarget_throws: "isl (resolveTarget ref dn) \<longleftrightarrow> dn = None \<and> ref \<noteq> []"
  by (simp add: resolveTarget_def split: option.split)

lemma dispatchCall_throws:
  "callThrows ref fc \<Longrightarrow> dispatchCall nts ref fc devs = Inl TypeError"
  by (auto simp: callThrows_def dispatchCall_def resolveTarget_def Let_def)

text \<open>
  A call that does not throw pushes one response, which depends on the ref snapshot only,
  not on the device state.
\<close>

lemma dispatchCall_returns:
  "\<not> callThrows ref fc \<Longrightarrow>
   \<exists>devs'. dispatchCall nts ref fc devs = Inr (devs', snd (projr (dispatchCall nts ref fc [])))"
  by (auto simp: callThrows_def dispatchCall_def resolveTarget_def Let_def
        split: option.split sum.split)

lemma dispatchCall_id_name:
  "\<not> callThrows ref fc \<Longrightarrow>
   fr_id (snd (projr (dispatchCall nts ref fc devs))) = fc_id fc \<and>
   fr_name (snd (projr (dispatchCall nts ref fc devs))) = fc_name fc"
  by (auto simp: callThrows_def dispatchCall_def resolveTarget_def functionResponse_def Let_def
        split: option.split sum.split)

lemma dispatchCall_unhandled:
  "(fc_name fc \<noteq> ''controlDevice'' \<and> fc_name fc \<noteq> ''setDeviceValue'') \<or>
     resolveTarget ref (deviceName (fc_args fc)) = Inr None \<Longrightarrow>
   dispatchCall nts ref fc devs =
     Inr (devs, \<lparr>fr_id = fc_id fc, fr_name = fc_name fc,
                 fr_result = \<lparr>status = ''error'', message = ''Unknown device''\<rparr>\<rparr>)"
  by (auto simp add: dispatchCall_def functionResponse_def Let_def)

lemma dispatchLoop_returns:
  "\<forall>fc \<in> set fcs. \<not> callThrows ref fc \<Longrightarrow>
   \<exists>devs'. dispatchLoop nts ref fcs devs acc =
     (devs', Inr (acc @ map (\<lambda>fc. snd (projr (dispatchCall nts ref fc []))) fcs))"
proof (induction fcs arbitrary: devs acc)
  case Nil
  show ?case by simp
next
  case (Cons fc fcs)
  from Cons.prems have "\<not> callThrows ref fc" by simp
  then obtain devs1 where step:
    "dispatchCall nts ref fc devs = Inr (devs1, snd (projr (dispatchCall nts ref fc [])))"
    using dispatchCall_returns by blast
  from Cons.prems have "\<forall>fc \<in> set fcs. \<not> callThrows ref fc" by simp
  from Cons.IH [OF this, of devs1 "acc @ [snd (projr (dispatchCall nts ref fc []))]"] step
  show ?case by simp
qed

lemma dispatchLoop_throws:
  "\<exists>fc \<in> set fcs. callThrows ref fc \<Longrightarrow>
   \<exists>devs'. dispatchLoop nts ref fcs devs acc = (devs', Inl TypeError)"
proof (induction fcs arbitrary: devs acc)
  case Nil
  then show ?case by simp
next
  case (Cons fc fcs)
  show ?case
  proof (cases "callThrows ref fc")
    case True
    then show ?thesis by (simp add: dispatchCall_throws)
  next
    case False
    then obtain devs1 where step:
      "dispatchCall nts ref fc devs = Inr (devs1, snd (projr (dispatchCall nts ref fc [])))"
      using dispatchCall_returns by blast
    from False Cons.prems have "\<exists>fc \<in> set fcs. callThrows ref fc" by simp
    from Cons.IH [OF this, of devs1 "acc @ [snd (projr (dispatchCall nts ref fc []))]"] step
    show ?thesis by simp
  qed
qed

lemma handleAudioOutput_cases:
  "(audioThrows decode s msg \<longrightarrow> handleAudioOutput decode t s msg = (s, Some DecodeFailed)) \<and>
   (\<not> audioThrows decode s msg \<longrightarrow>
      snd (handleAudioOutput decode t s msg) = None \<and>
      toolResponses (trace (fst (handleAudioOutput decode t s msg))) = toolResponses (trace s) \<and>
      devices (fst (handleAudioOutput decode t s msg)) = devices s \<and>
      devicesRef (fst (handleAudioOutput decode t s msg)) = devicesRef s)"
  by (auto simp: handleAudioOutput_def audioThrows_def playAudioBuffer_def emit_def Let_def
        toolResponses_append split: option.splits)

lemma handleToolCalls_returns:
  assumes "toolCall msg = Some calls" and "\<forall>fc \<in> set calls. \<not> callThrows (devicesRef s) fc"
  shows "snd (handleToolCalls nts s msg) = None \<and>
         trace (fst (handleToolCalls nts s msg)) =
           trace s @ [SendToolResponse
             (map (\<lambda>fc. snd (projr (dispatchCall nts (devicesRef s) fc []))) calls)]"
proof -
  obtain devs' where
    "dispatchLoop nts (devicesRef s) calls (devices s) [] =
       (devs', Inr (map (\<lambda>fc. snd (projr (dispatchCall nts (devicesRef s) fc []))) calls))"
    using dispatchLoop_returns [OF assms(2), of nts "devices s" "[]"] by auto
  with assms(1) show ?thesis by (simp add: handleToolCalls_def emit_def)
qed

lemma handleToolCalls_throws:
  assumes "toolCall msg = Some calls" and "\<exists>fc \<in> set calls. callThrows (devicesRef s) fc"
  shows "snd (handleToolCalls nts s msg) = Some TypeError \<and>
         trace (fst (handleToolCalls nts s msg)) = trace s"
proof -
  obtain devs' where
    "dispatchLoop nts (devicesRef s) calls (devices s) [] = (devs', Inl TypeError)"
    using dispatchLoop_throws [OF assms(2), of nts "devices s" "[]"] by auto
  with assms(1) show ?thesis by (simp add: handleToolCalls_def)
qed

lemma onmessage_returns:
  assumes "toolCall msg = Some calls" and "\<not> audioThrows decode s msg"
    and "\<forall>fc \<in> set calls. \<not> callThrows (devicesRef s) fc"
  shows "snd (onmessage decode nts t s msg) = None \<and>
         toolResponses (trace (fst (onmessage decode nts t s msg))) =
           toolResponses (trace s) @
             [map (\<lambda>fc. snd (projr (dispatchCall nts (devicesRef s) fc []))) calls]"
proof -
  obtain s1 where audio: "handleAudioOutput decode t s msg = (s1, None)"
    "toolResponses (trace s1) = toolResponses (trace s)" "devicesRef s1 = devicesRef s"
    using handleAudioOutput_cases [of decode s msg t] assms(2)
    by (cases "handleAudioOutput decode t s msg") auto
  have "onmessage decode nts t s msg = handleToolCalls nts s1 msg"
    using audio(1) by (simp add: onmessage_def)
  moreover have "\<forall>fc \<in> set calls. \<not> callThrows (devicesRef s1) fc"
    using assms(3) audio(3) by simp
  ultimately show ?thesis
    using handleToolCalls_returns [OF assms(1), of s1 nts] audio(2,3)
    by (simp add: toolResponses_append)
qed

lemma onmessage_throws:
  assumes "toolCall msg = Some calls"
    and "audioThrows decode s msg \<or> (\<exists>fc \<in> set calls. callThrows (devicesRef s) fc)"
  shows "snd (onmessage decode nts t s msg) \<noteq> None \<and>
         toolResponses (trace (fst (onmessage decode nts t s msg))) = toolResponses (trace s)"
proof (cases "audioThrows decode s msg")
  case True
  then show ?thesis
    using handleAudioOutput_cases [of decode s msg t] by (simp add: onmessage_def)
next
  case False
  obtain s1 where audio: "handleAudioOutput decode t s msg = (s1, None)"
    "toolResponses (trace s1) = toolResponses (trace s)" "devicesRef s1 = devicesRef s"
    using handleAudioOutput_cases [of decode s msg t] False
    by (cases "handleAudioOutput decode t s msg") auto
  have run: "onmessage decode nts t s msg = handleToolCalls nts s1 msg"
    using audio(1) by (simp add: onmessage_def)
  from False assms(2) have "\<exists>fc \<in> set calls. callThrows (devicesRef s1) fc"
    using audio(3) by simp
  from handleToolCalls_throws [OF assms(1) this, of nts] run audio(2)
  show ?thesis by simp
qed

text \<open>
  C1. A \<^verbatim>\<open>controlDevice\<close> call that resolves a device should leave its power state equal
  to \<^verbatim>\<open>action == turnOn\<close>, whatever it was before, and switching on twice should equal
  switching on once. The dispatcher computes \<^verbatim>\<open>shouldBeOn\<close> and reports it in the message,
  but the mutation it calls is \<^const>\<open>toggleDevice\<close>, which flips the state: asked to
  turn on the air conditioner, which is on, it switches it off and answers that it is on
  (\<open>ligado\<close>); and toggling twice is not toggling once.
\<close>

theorem controlDevice_turnOn_switches_off:
  "deviceName (fc_args turnOnAC) = Some ''Ar Condicionado'' \<and>
   findTarget INITIAL_DEVICES ''Ar Condicionado'' = Some (INITIAL_DEVICES ! 1) \<and>
   d_isOn (INITIAL_DEVICES ! 1) \<and>
   action (fc_args turnOnAC) = ''turnOn'' \<and>
   \<not> isl (dispatchCall toString50 INITIAL_DEVICES turnOnAC INITIAL_DEVICES) \<and>
   \<not> d_isOn (fst (projr (dispatchCall toString50 INITIAL_DEVICES turnOnAC INITIAL_DEVICES)) ! 1) \<and>
   fr_result (snd (projr (dispatchCall toString50 INITIAL_DEVICES turnOnAC INITIAL_DEVICES))) =
     \<lparr>status = ''ok'', message = ''Ar Condicionado agora est'' @ [CHR 0xE1] @ '' ligado''\<rparr> \<and>
   toggleDevice ''1'' (toggleDevice ''1'' INITIAL_DEVICES) \<noteq> toggleDevice ''1'' INITIAL_DEVICES"
  by code_simp

text \<open>
  C2, as amended. A \<^verbatim>\<open>controlDevice\<close> or \<^verbatim>\<open>setDeviceValue\<close> call whose device name
  resolves to no device yields the result with status \<open>error\<close> and message
  \<open>Unknown device\<close>, the default set at the head of the loop body, and leaves the device
  list as it was.
\<close>

theorem unresolved_device_error_result:
  assumes "fc_name fc = ''controlDevice'' \<or> fc_name fc = ''setDeviceValue''"
    and "resolveTarget ref (deviceName (fc_args fc)) = Inr None"
  shows "dispatchCall nts ref fc devs =
           Inr (devs, \<lparr>fr_id = fc_id fc, fr_name = fc_name fc,
                       fr_result = \<lparr>status = ''error'', message = ''Unknown device''\<rparr>\<rparr>)"
  using assms(2) by (simp add: dispatchCall_unhandled)

theorem unresolved_device_error_result_witness:
  "fc_name setInexistente = ''setDeviceValue'' \<and>
   resolveTarget INITIAL_DEVICES (deviceName (fc_args setInexistente)) = Inr None \<and>
   dispatchCall toString50 INITIAL_DEVICES setInexistente INITIAL_DEVICES =
     Inr (INITIAL_DEVICES, \<lparr>fr_id = ''call-2'', fr_name = ''setDeviceValue'',
        fr_result = \<lparr>status = ''error'', message = ''Unknown device''\<rparr>\<rparr>)"
proof -
  have n: "fc_name setInexistente = ''setDeviceValue''" and i: "fc_id setInexistente = ''call-2''"
    by (simp_all add: setInexistente_def)
  have u: "resolveTarget INITIAL_DEVICES (deviceName (fc_args setInexistente)) = Inr None"
    by code_simp
  from n have n': "fc_name setInexistente = ''controlDevice'' \<or> fc_name setInexistente = ''setDeviceValue''"
    by simp
  show ?thesis
    using unresolved_device_error_result [OF n' u, of toString50 INITIAL_DEVICES] n i u by simp
qed

text \<open>
  C2, as stated, fails: for \<^verbatim>\<open>setDeviceValue("inexistente", 50)\<close> the message is
  \<open>Unknown device\<close>, not \<open>device not found\<close>.
\<close>

theorem unresolved_message_counterexample:
  "fc_name setInexistente = ''setDeviceValue'' \<and>
   deviceName (fc_args setInexistente) = Some ''inexistente'' \<and>
   findTarget INITIAL_DEVICES ''inexistente'' = None \<and>
   \<not> isl (dispatchCall toString50 INITIAL_DEVICES setInexistente INITIAL_DEVICES) \<and>
   message (fr_result (snd (projr
       (dispatchCall toString50 INITIAL_DEVICES setInexistente INITIAL_DEVICES))))
     = ''Unknown device'' \<and>
   message (fr_result (snd (projr
       (dispatchCall toString50 INITIAL_DEVICES setInexistente INITIAL_DEVICES))))
     \<noteq> ''device not found''"
  by code_simp

section \<open>The session lifecycle\<close>

lemma disconnect_fields:
  "processorRef (disconnect s) = None \<and> inputSourceRef (disconnect s) = None \<and>
   audioContextRef (disconnect s) = None \<and> nextStartTimeRef (disconnect s) = 0 \<and>
   sessionRef (disconnect s) = None \<and> \<not> isLiveConnected (disconnect s) \<and>
   \<not> isAudioStreamActive (disconnect s) \<and>
   statusMessage (disconnect s) = ''Toque no microfone para falar''"
  by (simp add: disconnect_def emit_def Let_def split: option.split)

lemma disconnect_trace:
  "trace (disconnect s) = trace s @
     (case processorRef s of Some p \<Rightarrow> [NodeDisconnect p] | None \<Rightarrow> []) @
     (case inputSourceRef s of Some i \<Rightarrow> [NodeDisconnect i] | None \<Rightarrow> []) @
     (case audioContextRef s of Some c \<Rightarrow> [ContextClose c] | None \<Rightarrow> [])"
  by (simp add: disconnect_def emit_def Let_def split: option.split)

lemma disconnect_noop: "idleOrClosed s \<Longrightarrow> disconnect s = s"
  by (simp add: idleOrClosed_def disconnect_def Let_def)

text \<open>
  The \<^verbatim>\<open>catch\<close> of \<^verbatim>\<open>connectToGemini\<close> closes the session; the failure status it
  sets is overwritten by the \<^verbatim>\<open>disconnect()\<close> that follows it.
\<close>

lemma connectFailed_closes:
  "idleOrClosed (connectFailed s) \<and>
   statusMessage (connectFailed s) = ''Toque no microfone para falar''"
  by (simp add: connectFailed_def disconnect_fields idleOrClosed_def)

text \<open>
  C3, as amended. When \<^verbatim>\<open>disconnect()\<close> runs while the handshake is pending and the
  handshake resolves afterwards, \<^verbatim>\<open>onopen\<close> runs without asking whether the session is
  still the active one. The output audio context stays released, the session ref stays
  null and the playback cursor stays 0; but the session is marked connected and, when the
  microphone is granted, the capture pipeline is started and its source and processor are
  stored in the capture refs. When the microphone is refused the capture refs stay null.
\<close>

theorem stale_onopen_after_disconnect:
  "audioContextRef (onopen mic (disconnect (connectToGemini HandshakeIssued s))) = None \<and>
   nextStartTimeRef (onopen mic (disconnect (connectToGemini HandshakeIssued s))) = 0 \<and>
   sessionRef (onopen mic (disconnect (connectToGemini HandshakeIssued s))) = None \<and>
   isLiveConnected (onopen mic (disconnect (connectToGemini HandshakeIssued s))) \<and>
   processorRef (onopen MicGranted (disconnect (connectToGemini HandshakeIssued s)))
     = Some (fresh s + 5) \<and>
   inputSourceRef (onopen MicGranted (disconnect (connectToGemini HandshakeIssued s)))
     = Some (fresh s + 4) \<and>
   isAudioStreamActive (onopen MicGranted (disconnect (connectToGemini HandshakeIssued s))) \<and>
   processorRef (onopen MicRejected (disconnect (connectToGemini HandshakeIssued s))) = None \<and>
   inputSourceRef (onopen MicRejected (disconnect (connectToGemini HandshakeIssued s))) = None"
  by (cases mic)
     (simp_all add: onopen_def startMicrophone_def disconnect_def connectToGemini_def
        emit_def Let_def split: option.split)

text \<open>
  C3, as stated, fails: from the initial state, connect, disconnect during the handshake,
  then the handshake resolves and the microphone is granted. The capture refs hold a new
  source and processor and both flags are on.
\<close>

theorem stale_onopen_counterexample:
  "processorRef (onopen MicGranted (disconnect (connectToGemini HandshakeIssued initialState)))
     = Some 5 \<and>
   inputSourceRef (onopen MicGranted (disconnect (connectToGemini HandshakeIssued initialState)))
     = Some 4 \<and>
   isLiveConnected (onopen MicGranted (disconnect (connectToGemini HandshakeIssued initialState))) \<and>
   isAudioStreamActive (onopen MicGranted (disconnect (connectToGemini HandshakeIssued initialState)))"
  by (simp add: onopen_def startMicrophone_def disconnect_def connectToGemini_def
        initialState_def emit_def Let_def)

text \<open>
  C4. When the microphone cannot be acquired, a status string should be set and the
  session closed, as the \<^verbatim>\<open>catch\<close> of \<^verbatim>\<open>connectToGemini\<close> does (its status line reads
  \<open>Falha ao iniciar. Verifique o microfone.\<close>). The \<^verbatim>\<open>catch\<close> of \<^verbatim>\<open>startMicrophone\<close>
  only logs: no capture node is created, so no frame is emitted, but the session stays
  marked connected, the status line still invites the user to speak, and the audio context
  and the session stay held.
\<close>

theorem mic_rejected_stays_connected:
  "startMicrophone MicRejected s = emit [ConsoleError ''Mic error''] s \<and>
   isLiveConnected (onopen MicRejected (connectToGemini HandshakeIssued initialState)) \<and>
   statusMessage (onopen MicRejected (connectToGemini HandshakeIssued initialState))
     = ''Ouvindo... Pode falar.'' \<and>
   processorRef (onopen MicRejected (connectToGemini HandshakeIssued initialState)) = None \<and>
   audioContextRef (onopen MicRejected (connectToGemini HandshakeIssued initialState)) = Some 0 \<and>
   sessionRef (onopen MicRejected (connectToGemini HandshakeIssued initialState)) = Some 1 \<and>
   \<not> idleOrClosed (onopen MicRejected (connectToGemini HandshakeIssued initialState))"
  by (simp add: onopen_def startMicrophone_def connectToGemini_def initialState_def
        idleOrClosed_def emit_def Let_def)

section \<open>The playback scheduler\<close>

lemma startTimes_append: "startTimes (xs @ ys) = startTimes xs @ startTimes ys"
  by (induction xs rule: startTimes.induct) simp_all

lemma playAudioBuffer_step:
  assumes "audioContextRef s \<noteq> None"
  shows "audioContextRef (playAudioBuffer now d s) = audioContextRef s \<and>
         nextStartTimeRef (playAudioBuffer now d s) = max now (nextStartTimeRef s) + d \<and>
         startTimes (trace (playAudioBuffer now d s)) =
           startTimes (trace s) @ [max now (nextStartTimeRef s)]"
  using assms
  by (auto simp: playAudioBuffer_def emit_def Let_def startTimes_append)

text \<open>
  C5. With an audio context in place and a cursor not ahead of the clock (as in a fresh
  session, where it is 0), three buffers of durations \<open>d1\<close>, \<open>d2\<close>, \<open>d3\<close> (durations are
  not negative) that arrive at times \<open>t1 \<le> t2 \<le> t3\<close>, all before \<open>t1 + d1\<close>, are
  started at exactly \<open>t1\<close>, \<open>t1 + d1\<close> and \<open>t1 + d1 + d2\<close>: each starts at
  \<open>max now nextStart\<close> and moves the cursor to its own end.
\<close>

theorem playback_back_to_back:
  assumes ctx: "audioContextRef s \<noteq> None"
    and cursor: "nextStartTimeRef s \<le> t1"
    and dur: "0 \<le> d2"
    and arrive: "t1 \<le> t2" "t2 \<le> t3" "t3 < t1 + d1"
  shows "startTimes (trace (playAudioBuffer t3 d3 (playAudioBuffer t2 d2 (playAudioBuffer t1 d1 s))))
           = startTimes (trace s) @ [t1, t1 + d1, t1 + d1 + d2] \<and>
         nextStartTimeRef (playAudioBuffer t3 d3 (playAudioBuffer t2 d2 (playAudioBuffer t1 d1 s)))
           = t1 + d1 + d2 + d3"
proof -
  let ?s1 = "playAudioBuffer t1 d1 s"
  let ?s2 = "playAudioBuffer t2 d2 ?s1"
  have s1: "audioContextRef ?s1 \<noteq> None" "nextStartTimeRef ?s1 = t1 + d1"
    "startTimes (trace ?s1) = startTimes (trace s) @ [t1]"
    using playAudioBuffer_step [OF ctx, of t1 d1] ctx cursor by (simp_all add: max_def)
  have s2: "audioContextRef ?s2 \<noteq> None" "nextStartTimeRef ?s2 = t1 + d1 + d2"
    "startTimes (trace ?s2) = startTimes (trace s) @ [t1, t1 + d1]"
    using playAudioBuffer_step [OF s1(1), of t2 d2] s1 arrive by (simp_all add: max_def)
  have "t3 \<le> t1 + d1 + d2" using arrive dur by simp
  then show ?thesis
    using playAudioBuffer_step [OF s2(1), of t3 d3] s2 by (simp add: max_def)
qed

theorem playback_back_to_back_witness:
  "audioContextRef playing \<noteq> None \<and> nextStartTimeRef playing \<le> 1 \<and>
   startTimes (trace (playAudioBuffer (3/2) 1 (playAudioBuffer (5/4) (1/2) (playAudioBuffer 1 2 playing))))
     = [1, 3, 7/2] \<and>
   nextStartTimeRef (playAudioBuffer (3/2) 1 (playAudioBuffer (5/4) (1/2) (playAudioBuffer 1 2 playing)))
     = 9/2"
proof -
  have ctx: "audioContextRef playing \<noteq> None" and cur: "nextStartTimeRef playing \<le> 1"
    and tr: "startTimes (trace playing) = []"
    by (simp_all add: playing_def connectToGemini_def initialState_def emit_def Let_def)
  have a: "(0::real) \<le> 1/2" "(1::real) \<le> 5/4" "(5/4::real) \<le> 3/2" "(3/2::real) < 1 + 2"
    by simp_all
  from playback_back_to_back [OF ctx cur a, of 1] tr ctx cur show ?thesis by simp
qed

section \<open>Batching of tool responses\<close>

text \<open>
  C6, as amended. \<^verbatim>\<open>onmessage\<close> has no exception handler. For an inbound message that
  carries \<open>N\<close> tool calls: when the awaited audio decoding (if any) does not throw and no
  call throws in the lookup, the handler completes and exactly one tool-response message
  is sent, with \<open>N\<close> entries in the order of the calls; when the decoding or a call
  throws, the handler ends with the exception and no tool-response message is sent.
\<close>

theorem onmessage_single_batched_response:
  assumes "toolCall msg = Some calls"
  shows "(\<not> audioThrows decode s msg \<and> (\<forall>fc \<in> set calls. \<not> callThrows (devicesRef s) fc) \<longrightarrow>
            snd (onmessage decode nts t s msg) = None \<and>
            (\<exists>rs. toolResponses (trace (fst (onmessage decode nts t s msg))) =
                     toolResponses (trace s) @ [rs] \<and>
                   length rs = length calls \<and>
                   map fr_id rs = map fc_id calls \<and> map fr_name rs = map fc_name calls)) \<and>
         (audioThrows decode s msg \<or> (\<exists>fc \<in> set calls. callThrows (devicesRef s) fc) \<longrightarrow>
            snd (onmessage decode nts t s msg) \<noteq> None \<and>
            toolResponses (trace (fst (onmessage decode nts t s msg))) = toolResponses (trace s))"
proof (intro conjI impI)
  assume ok: "\<not> audioThrows decode s msg \<and> (\<forall>fc \<in> set calls. \<not> callThrows (devicesRef s) fc)"
  let ?rs = "map (\<lambda>fc. snd (projr (dispatchCall nts (devicesRef s) fc []))) calls"
  from ok have run: "snd (onmessage decode nts t s msg) = None"
    "toolResponses (trace (fst (onmessage decode nts t s msg))) = toolResponses (trace s) @ [?rs]"
    using onmessage_returns [OF assms, of decode s nts t] by simp_all
  show "snd (onmessage decode nts t s msg) = None" by (rule run(1))
  have "map fr_id ?rs = map fc_id calls" "map fr_name ?rs = map fc_name calls"
    using ok by (simp_all add: dispatchCall_id_name)
  with run(2) show "\<exists>rs. toolResponses (trace (fst (onmessage decode nts t s msg))) =
                     toolResponses (trace s) @ [rs] \<and>
                   length rs = length calls \<and>
                   map fr_id rs = map fc_id calls \<and> map fr_name rs = map fc_name calls"
    by (intro exI [of _ ?rs]) simp
next
  assume "audioThrows decode s msg \<or> (\<exists>fc \<in> set calls. callThrows (devicesRef s) fc)"
  from onmessage_throws [OF assms this, of nts t]
  show "snd (onmessage decode nts t s msg) \<noteq> None"
    and "toolResponses (trace (fst (onmessage decode nts t s msg))) = toolResponses (trace s)"
    by simp_all
qed

theorem onmessage_single_batched_response_witness:
  "snd (onmessage Map.empty toString50 0 initialState twoCalls) = None \<and>
   (\<exists>rs. toolResponses (trace (fst (onmessage Map.empty toString50 0 initialState twoCalls)))
            = [rs] \<and>
          length rs = 2 \<and> map fr_id rs = [''call-1'', ''call-2''] \<and>
          map fr_name rs = [''controlDevice'', ''setDeviceValue'']) \<and>
   callThrows (devicesRef initialState) noDeviceName \<and>
   snd (onmessage Map.empty toString50 0 initialState callWithoutName) \<noteq> None \<and>
   toolResponses (trace (fst (onmessage Map.empty toString50 0 initialState callWithoutName))) = []"
proof -
  have tc: "toolCall twoCalls = Some [turnOnAC, setInexistente]"
    and tc': "toolCall callWithoutName = Some [turnOnAC, noDeviceName]"
    by (simp_all add: twoCalls_def callWithoutName_def)
  have au: "\<not> audioThrows Map.empty initialState twoCalls"
    by (simp add: audioThrows_def twoCalls_def)
  have ok: "\<forall>fc \<in> set [turnOnAC, setInexistente]. \<not> callThrows (devicesRef initialState) fc"
    by (simp add: callThrows_def turnOnAC_def setInexistente_def)
  have bad: "callThrows (devicesRef initialState) noDeviceName"
    by (simp add: callThrows_def noDeviceName_def initialState_def INITIAL_DEVICES_def)
  have tr: "toolResponses (trace initialState) = []"
    by (simp add: initialState_def)
  have ids: "map fc_id [turnOnAC, setInexistente] = [''call-1'', ''call-2'']"
    "map fc_name [turnOnAC, setInexistente] = [''controlDevice'', ''setDeviceValue'']"
    by (simp_all add: turnOnAC_def setInexistente_def)
  from onmessage_single_batched_response [OF tc, of Map.empty initialState toString50 0,
      THEN conjunct1] au ok tr ids
  have sent: "snd (onmessage Map.empty toString50 0 initialState twoCalls) = None \<and>
   (\<exists>rs. toolResponses (trace (fst (onmessage Map.empty toString50 0 initialState twoCalls)))
            = [rs] \<and>
          length rs = 2 \<and> map fr_id rs = [''call-1'', ''call-2''] \<and>
          map fr_name rs = [''controlDevice'', ''setDeviceValue''])"
    by (simp add: numeral_2_eq_2)
  from onmessage_single_batched_response [OF tc', of Map.empty initialState toString50 0,
      THEN conjunct2] bad tr
  have "snd (onmessage Map.empty toString50 0 initialState callWithoutName) \<noteq> None \<and>
   toolResponses (trace (fst (onmessage Map.empty toString50 0 initialState callWithoutName))) = []"
    by simp
  with sent bad show ?thesis by simp
qed

text \<open>
  C6, as stated, fails. A message with two tool calls and an audio payload whose decoding
  throws ends the handler before the loop; a message whose second call has no
  \<^verbatim>\<open>deviceName\<close> ends it inside the loop. Neither is answered.
\<close>

theorem throwing_handler_counterexample:
  "toolCall callsAndBadAudio = Some [turnOnAC, setInexistente] \<and>
   snd (onmessage Map.empty toString50 0 playing callsAndBadAudio) = Some DecodeFailed \<and>
   toolResponses (trace (fst (onmessage Map.empty toString50 0 playing callsAndBadAudio))) = [] \<and>
   toolCall callWithoutName = Some [turnOnAC, noDeviceName] \<and>
   snd (onmessage Map.empty toString50 0 initialState callWithoutName) = Some TypeError \<and>
   toolResponses (trace (fst (onmessage Map.empty toString50 0 initialState callWithoutName))) = []"
  by code_simp

section \<open>Teardown\<close>

text \<open>
  C7. \<^verbatim>\<open>disconnect()\<close> disconnects the processor and the input source and clears their
  refs, closes the output audio context and clears its ref, and sets the playback cursor
  to 0, all within the call; and on a session that is already idle or closed it changes
  nothing (no field, no further call to the browser).
\<close>

theorem disconnect_releases_and_is_idempotent:
  "processorRef (disconnect s) = None \<and> inputSourceRef (disconnect s) = None \<and>
   audioContextRef (disconnect s) = None \<and> nextStartTimeRef (disconnect s) = 0 \<and>
   trace (disconnect s) = trace s @
     (case processorRef s of Some p \<Rightarrow> [NodeDisconnect p] | None \<Rightarrow> []) @
     (case inputSourceRef s of Some i \<Rightarrow> [NodeDisconnect i] | None \<Rightarrow> []) @
     (case audioContextRef s of Some c \<Rightarrow> [ContextClose c] | None \<Rightarrow> []) \<and>
   idleOrClosed initialState \<and> idleOrClosed (disconnect s) \<and>
   (idleOrClosed s \<longrightarrow> disconnect s = s)"
proof -
  have "idleOrClosed initialState" by (simp add: idleOrClosed_def initialState_def)
  moreover have "idleOrClosed (disconnect s)"
    using disconnect_fields [of s] by (simp add: idleOrClosed_def)
  ultimately show ?thesis
    using disconnect_fields [of s] disconnect_trace [of s] disconnect_noop [of s] by simp
qed

theorem disconnect_releases_and_is_idempotent_witness:
  "idleOrClosed initialState \<and> disconnect initialState = initialState \<and>
   idleOrClosed (disconnect connected) \<and> disconnect (disconnect connected) = disconnect connected \<and>
   trace (disconnect connected) =
     trace connected @ [NodeDisconnect 5, NodeDisconnect 4, ContextClose 0]"
proof -
  note r = disconnect_releases_and_is_idempotent
  have i: "idleOrClosed initialState" and c: "idleOrClosed (disconnect connected)"
    using r [of connected] by simp_all
  have refs: "processorRef connected = Some 5" "inputSourceRef connected = Some 4"
    "audioContextRef connected = Some 0"
    by (simp_all add: connected_def onopen_def startMicrophone_def connectToGemini_def
          initialState_def emit_def Let_def)
  from r [of initialState] i r [of "disconnect connected"] c r [of connected] refs
  show ?thesis by simp
qed

section \<open>The device registry\<close>

lemma includes_str_sublist: "includes_str s t = sublist t s"
  by (induction s) (simp_all add: sublist_Cons_right)

lemma nameMatches_iff: "nameMatches q d = containsIgnoringCase (d_name d) q"
  by (simp add: nameMatches_def containsIgnoringCase_def includes_str_sublist)

text \<open>
  C8. For every query \<open>q\<close> and device list \<open>D\<close>, the lookup returns none exactly when no
  device name contains \<open>q\<close> ignoring case, and otherwise the device at the least index
  whose name contains \<open>q\<close> ignoring case: the first match in registry order, also when
  several devices match.
\<close>

theorem findTarget_first_match:
  "(findTarget D q = None \<longleftrightarrow> (\<forall>d \<in> set D. \<not> containsIgnoringCase (d_name d) q)) \<and>
   (findTarget D q = Some d \<longleftrightarrow>
      (\<exists>i < length D. D ! i = d \<and> containsIgnoringCase (d_name d) q \<and>
         (\<forall>j < i. \<not> containsIgnoringCase (d_name (D ! j)) q)))"
proof -
  have "nameMatches q = (\<lambda>d. containsIgnoringCase (d_name d) q)"
    by (rule ext) (rule nameMatches_iff)
  then show ?thesis
    unfolding findTarget_def by (auto simp: find_None_iff find_Some_iff)
qed

theorem findTarget_first_match_witness:
  "findTarget INITIAL_DEVICES ''LUZ'' = Some (INITIAL_DEVICES ! 0) \<and>
   containsIgnoringCase (d_name (INITIAL_DEVICES ! 3)) ''LUZ'' \<and>
   findTarget INITIAL_DEVICES ''inexistente'' = None"
proof -
  have m0: "containsIgnoringCase (d_name (INITIAL_DEVICES ! 0)) ''LUZ''" by code_simp
  have m3: "containsIgnoringCase (d_name (INITIAL_DEVICES ! 3)) ''LUZ''" by code_simp
  have len: "0 < length INITIAL_DEVICES" by (simp add: INITIAL_DEVICES_def)
  have none: "\<forall>d \<in> set INITIAL_DEVICES. \<not> containsIgnoringCase (d_name d) ''inexistente''"
    by code_simp
  from m0 len have "findTarget INITIAL_DEVICES ''LUZ'' = Some (INITIAL_DEVICES ! 0)"
    using findTarget_first_match [of INITIAL_DEVICES "''LUZ''" "INITIAL_DEVICES ! 0"] by auto
  moreover from none have "findTarget INITIAL_DEVICES ''inexistente'' = None"
    using findTarget_first_match [of INITIAL_DEVICES "''inexistente''"] by blast
  ultimately show ?thesis using m3 by simp
qed

text \<open>
  C9. Both mutations keep the length of the list and, at every position, the id, name,
  type and room. At a device with the targeted id the power mutation changes the field
  \<open>isOn\<close> only and the value mutation the field \<open>value\<close> only, to the number given (no
  clamping, no range check); every other device is unchanged.
\<close>

theorem registry_mutations_frame:
  "length (toggleDevice i ds) = length ds \<and> length (changeDeviceValue i v ds) = length ds \<and>
   (\<forall>k < length ds.
      (d_id (ds ! k) = i \<longrightarrow>
         toggleDevice i ds ! k = (ds ! k)\<lparr>d_isOn := \<not> d_isOn (ds ! k)\<rparr> \<and>
         changeDeviceValue i v ds ! k = (ds ! k)\<lparr>d_value := Some v\<rparr>) \<and>
      (d_id (ds ! k) \<noteq> i \<longrightarrow>
         toggleDevice i ds ! k = ds ! k \<and> changeDeviceValue i v ds ! k = ds ! k) \<and>
      d_id (toggleDevice i ds ! k) = d_id (ds ! k) \<and>
      d_name (toggleDevice i ds ! k) = d_name (ds ! k) \<and>
      d_type (toggleDevice i ds ! k) = d_type (ds ! k) \<and>
      d_room (toggleDevice i ds ! k) = d_room (ds ! k) \<and>
      d_id (changeDeviceValue i v ds ! k) = d_id (ds ! k) \<and>
      d_name (changeDeviceValue i v ds ! k) = d_name (ds ! k) \<and>
      d_type (changeDeviceValue i v ds ! k) = d_type (ds ! k) \<and>
      d_room (changeDeviceValue i v ds ! k) = d_room (ds ! k))"
  by (simp add: toggleDevice_def changeDeviceValue_def)

theorem registry_mutations_frame_witness:
  "d_id (INITIAL_DEVICES ! 1) = ''2'' \<and>
   toggleDevice ''2'' INITIAL_DEVICES ! 1 = (INITIAL_DEVICES ! 1)\<lparr>d_isOn := False\<rparr> \<and>
   changeDeviceValue ''2'' 150 INITIAL_DEVICES ! 1 = (INITIAL_DEVICES ! 1)\<lparr>d_value := Some 150\<rparr> \<and>
   d_id (INITIAL_DEVICES ! 0) \<noteq> ''2'' \<and>
   toggleDevice ''2'' INITIAL_DEVICES ! 0 = INITIAL_DEVICES ! 0 \<and>
   changeDeviceValue ''2'' 150 INITIAL_DEVICES ! 0 = INITIAL_DEVICES ! 0"
proof -
  have k1: "(1::nat) < length INITIAL_DEVICES" and k0: "(0::nat) < length INITIAL_DEVICES"
    by (simp_all add: INITIAL_DEVICES_def)
  have id1: "d_id (INITIAL_DEVICES ! 1) = ''2''" and on1: "d_isOn (INITIAL_DEVICES ! 1)"
    and id0: "d_id (INITIAL_DEVICES ! 0) \<noteq> ''2''"
    by (simp_all add: INITIAL_DEVICES_def)
  note frame = registry_mutations_frame [of "''2''" INITIAL_DEVICES 150,
      THEN conjunct2, THEN conjunct2, rule_format]
  from frame [OF k1] id1 on1 frame [OF k0] id0 show ?thesis by simp
qed

section \<open>One result per call\<close>

text \<open>
  C10, as amended. For a message with tool calls whose handler does not throw (the audio
  decoding, if any, completes and every \<^verbatim>\<open>controlDevice\<close> or \<^verbatim>\<open>setDeviceValue\<close> call can
  be looked up), the one response sent holds exactly one entry per call, carrying the id
  and the name of that call, so the response array is as long as the list of calls; a call
  that no branch handles (its name is neither \<^verbatim>\<open>controlDevice\<close> nor \<^verbatim>\<open>setDeviceValue\<close>,
  or its device is not found) gets the default result, status \<open>error\<close> and message
  \<open>Unknown device\<close>.
\<close>

theorem every_call_gets_one_result:
  assumes "toolCall msg = Some calls"
    and "\<not> audioThrows decode s msg"
    and "\<forall>fc \<in> set calls. \<not> callThrows (devicesRef s) fc"
  shows "\<exists>rs. toolResponses (trace (fst (onmessage decode nts t s msg))) =
                  toolResponses (trace s) @ [rs] \<and>
           length rs = length calls \<and>
           (\<forall>k < length calls.
              fr_id (rs ! k) = fc_id (calls ! k) \<and> fr_name (rs ! k) = fc_name (calls ! k) \<and>
              ((fc_name (calls ! k) \<noteq> ''controlDevice'' \<and>
                fc_name (calls ! k) \<noteq> ''setDeviceValue'')
                 \<or> resolveTarget (devicesRef s) (deviceName (fc_args (calls ! k))) = Inr None \<longrightarrow>
               fr_result (rs ! k) = \<lparr>status = ''error'', message = ''Unknown device''\<rparr>))"
proof -
  let ?rs = "map (\<lambda>fc. snd (projr (dispatchCall nts (devicesRef s) fc []))) calls"
  have sent: "toolResponses (trace (fst (onmessage decode nts t s msg))) =
                toolResponses (trace s) @ [?rs]"
    using onmessage_returns [OF assms, of nts t] by simp
  have default: "\<And>fc. (fc_name fc \<noteq> ''controlDevice'' \<and> fc_name fc \<noteq> ''setDeviceValue'')
         \<or> resolveTarget (devicesRef s) (deviceName (fc_args fc)) = Inr None \<Longrightarrow>
       fr_result (snd (projr (dispatchCall nts (devicesRef s) fc []))) =
         \<lparr>status = ''error'', message = ''Unknown device''\<rparr>"
    by (simp add: dispatchCall_unhandled)
  have "length ?rs = length calls \<and>
           (\<forall>k < length calls.
              fr_id (?rs ! k) = fc_id (calls ! k) \<and> fr_name (?rs ! k) = fc_name (calls ! k) \<and>
              ((fc_name (calls ! k) \<noteq> ''controlDevice'' \<and>
                fc_name (calls ! k) \<noteq> ''setDeviceValue'')
                 \<or> resolveTarget (devicesRef s) (deviceName (fc_args (calls ! k))) = Inr None \<longrightarrow>
               fr_result (?rs ! k) = \<lparr>status = ''error'', message = ''Unknown device''\<rparr>))"
    using default assms(3) by (simp add: dispatchCall_id_name)
  with sent show ?thesis by blast
qed

theorem every_call_gets_one_result_witness:
  "\<not> audioThrows Map.empty initialState unknownCall \<and>
   \<not> callThrows (devicesRef initialState) turnOnAC \<and>
   \<not> callThrows (devicesRef initialState) openGarage \<and>
   (\<exists>rs. toolResponses (trace (fst (onmessage Map.empty toString50 0 initialState unknownCall)))
            = [rs] \<and>
      length rs = 2 \<and>
      fc_name ([turnOnAC, openGarage] ! 1) \<noteq> ''controlDevice'' \<and>
      fc_name ([turnOnAC, openGarage] ! 1) \<noteq> ''setDeviceValue'' \<and>
      rs ! 1 = \<lparr>fr_id = ''call-3'', fr_name = ''openGarage'',
                 fr_result = \<lparr>status = ''error'', message = ''Unknown device''\<rparr>\<rparr>)"
proof -
  have tc: "toolCall unknownCall = Some [turnOnAC, openGarage]"
    by (simp add: unknownCall_def)
  have au: "\<not> audioThrows Map.empty initialState unknownCall"
    by (simp add: audioThrows_def unknownCall_def)
  have c1: "\<not> callThrows (devicesRef initialState) turnOnAC"
    and c2: "\<not> callThrows (devicesRef initialState) openGarage"
    by (simp_all add: callThrows_def turnOnAC_def openGarage_def)
  from c1 c2 have ok: "\<forall>fc \<in> set [turnOnAC, openGarage]. \<not> callThrows (devicesRef initialState) fc"
    by simp
  have tr: "toolResponses (trace initialState) = []" by (simp add: initialState_def)
  have n: "fc_name ([turnOnAC, openGarage] ! 1) \<noteq> ''controlDevice'' \<and>
           fc_name ([turnOnAC, openGarage] ! 1) \<noteq> ''setDeviceValue''"
    by (simp add: openGarage_def)
  have i: "fc_id ([turnOnAC, openGarage] ! 1) = ''call-3''"
     "fc_name ([turnOnAC, openGarage] ! 1) = ''openGarage''"
    by (simp_all add: openGarage_def)
  from every_call_gets_one_result [OF tc au ok, of toString50 0]
  obtain rs where rs:
    "toolResponses (trace (fst (onmessage Map.empty toString50 0 initialState unknownCall))) =
        toolResponses (trace initialState) @ [rs]"
    "length rs = length [turnOnAC, openGarage]"
    "\<forall>k < length [turnOnAC, openGarage].
        fr_id (rs ! k) = fc_id ([turnOnAC, openGarage] ! k) \<and>
        fr_name (rs ! k) = fc_name ([turnOnAC, openGarage] ! k) \<and>
        ((fc_name ([turnOnAC, openGarage] ! k) \<noteq> ''controlDevice'' \<and>
          fc_name ([turnOnAC, openGarage] ! k) \<noteq> ''setDeviceValue'')
           \<or> resolveTarget (devicesRef initialState)
                (deviceName (fc_args ([turnOnAC, openGarage] ! k))) = Inr None \<longrightarrow>
         fr_result (rs ! k) = \<lparr>status = ''error'', message = ''Unknown device''\<rparr>)"
    by blast
  have k: "(1::nat) < length [turnOnAC, openGarage]" by simp
  from rs(3) [rule_format, OF k] n i
  have "rs ! 1 = \<lparr>fr_id = ''call-3'', fr_name = ''openGarage'',
                 fr_result = \<lparr>status = ''error'', message = ''Unknown device''\<rparr>\<rparr>"
    by (cases "rs ! 1") simp
  with rs(1,2) tr n au c1 c2 show ?thesis by (simp add: numeral_2_eq_2)
qed

text \<open>
  C10, as stated, fails: a \<^verbatim>\<open>setDeviceValue\<close> call without \<^verbatim>\<open>deviceName\<close> throws in the
  lookup, so neither it nor the call before it gets a result entry; the toggle queued by
  the earlier call stays applied.
\<close>

theorem call_without_deviceName_counterexample:
  "toolCall callWithoutName = Some [turnOnAC, noDeviceName] \<and>
   fc_name noDeviceName = ''setDeviceValue'' \<and> deviceName (fc_args noDeviceName) = None \<and>
   dispatchCall toString50 INITIAL_DEVICES noDeviceName INITIAL_DEVICES = Inl TypeError \<and>
   snd (handleToolCalls toString50 initialState callWithoutName) = Some TypeError \<and>
   trace (fst (handleToolCalls toString50 initialState callWithoutName)) = [] \<and>
   devices (fst (handleToolCalls toString50 initialState callWithoutName)) =
     toggleDevice ''2'' INITIAL_DEVICES"
  by code_simp

end
